theory Spec2Isabelle
  imports Main "HOL-Library.Word" "HOL-Library.AList"
begin

unbundle bit_operations_syntax

type_synonym u8 = "8 word"
type_synonym u32 = "32 word"
type_synonym bytes = "u8 list"

section \<open>Exceptions\<close>

text \<open>
  A JavaScript exception is a value: its constructor and its message. A function that
  can throw returns \<open>exn + 'a\<close>.
\<close>

datatype exn =
    Error string | TypeError string | RangeError string | WasmError string | SqliteError string

fun message :: "exn \<Rightarrow> string" where
  "message (Error m) = m"
| "message (TypeError m) = m"
| "message (RangeError m) = m"
| "message (WasmError m) = m"
| "message (SqliteError m) = m"

section \<open>The store: blobs, events and aliases (db.js)\<close>

text \<open>
  The three tables of the schema. A table with a primary key is a map from the key to
  the other columns; the event log is a list in insertion order, its AUTOINCREMENT id
  being the position. Timestamps (the \<open>strftime('now')\<close> defaults) are read from a clock
  value handed to every writing operation. A nullable column is an \<open>option\<close>.
\<close>

record blob_row =
  b_data :: bytes
  b_size :: nat
  b_created_at :: nat

record alias_row =
  al_name :: string
  al_hash :: string
  al_created_at :: nat
  al_updated_at :: nat

record event_row =
  ev_id :: nat
  ev_timestamp :: nat
  ev_type :: string
  ev_language :: "string option"
  ev_input_hash :: "string option"
  ev_output_hash :: "string option"
  ev_module_hash :: "string option"
  ev_alias :: "string option"
  ev_output_size :: "int option"
  ev_duration_ms :: "int option"
  ev_success :: nat
  ev_error :: "string option"

record db =
  blobs :: "string \<rightharpoonup> blob_row"
  events :: "event_row list"
  aliases :: "string \<rightharpoonup> alias_row"

definition empty_db :: db where
  "empty_db = \<lparr>blobs = Map.empty, events = [], aliases = Map.empty\<rparr>"

definition ForeignKeyFailed :: exn where
  "ForeignKeyFailed = SqliteError ''FOREIGN KEY constraint failed''"

text \<open>
  \<open>hash\<close> is \<open>crypto.createHash("sha256").update(data).digest("hex")\<close>. The digest is
  computed by the runtime's crypto library, so every operation that hashes takes the
  function \<open>H\<close> as a parameter.
\<close>

definition hasBlob :: "string \<Rightarrow> db \<Rightarrow> bool" where
  "hasBlob h s = (blobs s h \<noteq> None)"

text \<open>\<open>INSERT OR IGNORE\<close>: a row whose key is present is left as it is.\<close>

definition putBlob :: "(bytes \<Rightarrow> string) \<Rightarrow> nat \<Rightarrow> bytes \<Rightarrow> db \<Rightarrow> string \<times> db" where
  "putBlob H now buf s =
     (let h = H buf in
      (h, if hasBlob h s then s
          else s\<lparr>blobs := (blobs s)(h \<mapsto>
                 \<lparr>b_data = buf, b_size = length buf, b_created_at = now\<rparr>)\<rparr>))"

definition getBlob :: "string \<Rightarrow> db \<Rightarrow> bytes option" where
  "getBlob h s = (case blobs s h of None \<Rightarrow> None | Some row \<Rightarrow> Some (b_data row))"

definition blobSize :: "string \<Rightarrow> db \<Rightarrow> nat option" where
  "blobSize h s = (case blobs s h of None \<Rightarrow> None | Some row \<Rightarrow> Some (b_size row))"

text \<open>
  The argument object of \<open>recordEvent\<close>: a field that the caller leaves out is
  \<open>undefined\<close>, here \<open>None\<close>. \<open>x || null\<close> keeps a truthy \<open>x\<close> and turns every falsy
  one (\<open>undefined\<close>, the empty string, the number 0) into NULL.
\<close>

record event_args =
  type :: "string option"
  language :: "string option"
  inputHash :: "string option"
  outputHash :: "string option"
  moduleHash :: "string option"
  aliasName :: "string option"
  outputSize :: "int option"
  durationMs :: "int option"
  success :: bool
  error :: "string option"

definition no_args :: event_args where
  "no_args = \<lparr>type = None, language = None, inputHash = None, outputHash = None,
     moduleHash = None, aliasName = None, outputSize = None, durationMs = None,
     success = False, error = None\<rparr>"

fun str_or_null :: "string option \<Rightarrow> string option" where
  "str_or_null None = None"
| "str_or_null (Some x) = (if x = [] then None else Some x)"

fun num_or_null :: "int option \<Rightarrow> int option" where
  "num_or_null None = None"
| "num_or_null (Some n) = (if n = 0 then None else Some n)"

definition event_of :: "nat \<Rightarrow> nat \<Rightarrow> event_args \<Rightarrow> event_row" where
  "event_of i now a =
     \<lparr>ev_id = i, ev_timestamp = now,
      ev_type = (case str_or_null (type a) of None \<Rightarrow> ''compile'' | Some t \<Rightarrow> t),
      ev_language = str_or_null (language a),
      ev_input_hash = str_or_null (inputHash a),
      ev_output_hash = str_or_null (outputHash a),
      ev_module_hash = str_or_null (moduleHash a),
      ev_alias = str_or_null (aliasName a),
      ev_output_size = num_or_null (outputSize a),
      ev_duration_ms = num_or_null (durationMs a),
      ev_success = (if success a then 1 else 0),
      ev_error = str_or_null (error a)\<rparr>"

text \<open>
  \<open>foreign_keys = ON\<close>: the three hash columns of an event reference \<open>blobs(hash)\<close>, so
  the insert throws when one of them is not NULL and names no stored blob.
\<close>

definition fk_ok :: "db \<Rightarrow> string option \<Rightarrow> bool" where
  "fk_ok s h = (case h of None \<Rightarrow> True | Some k \<Rightarrow> hasBlob k s)"

definition recordEvent :: "nat \<Rightarrow> event_args \<Rightarrow> db \<Rightarrow> exn + (nat \<times> db)" where
  "recordEvent now a s =
     (let row = event_of (Suc (length (events s))) now a in
      if fk_ok s (ev_input_hash row) \<and> fk_ok s (ev_output_hash row)
         \<and> fk_ok s (ev_module_hash row)
      then Inr (ev_id row, s\<lparr>events := events s @ [row]\<rparr>)
      else Inl ForeignKeyFailed)"

text \<open>\<open>recentEvents\<close>: \<open>ORDER BY id DESC LIMIT ?\<close>.\<close>

definition recentEvents :: "nat \<Rightarrow> db \<Rightarrow> event_row list" where
  "recentEvents limit s = take limit (rev (events s))"

subsection \<open>Aliases\<close>

text \<open>
  \<open>setAlias\<close> returns null when no blob has the hash; otherwise it upserts: a fresh name
  gets both timestamps from the clock, an existing name keeps \<open>created_at\<close>.
\<close>

definition setAlias :: "nat \<Rightarrow> string \<Rightarrow> string \<Rightarrow> db \<Rightarrow> (string \<times> string) option \<times> db" where
  "setAlias now name h s =
     (if \<not> hasBlob h s then (None, s)
      else (Some (name, h),
            s\<lparr>aliases := (aliases s)(name \<mapsto>
               (case aliases s name of
                  None \<Rightarrow> \<lparr>al_name = name, al_hash = h, al_created_at = now, al_updated_at = now\<rparr>
                | Some old \<Rightarrow> old\<lparr>al_hash := h, al_updated_at := now\<rparr>))\<rparr>))"

definition getAlias :: "string \<Rightarrow> db \<Rightarrow> alias_row option" where
  "getAlias name s = aliases s name"

definition deleteAlias :: "string \<Rightarrow> db \<Rightarrow> bool \<times> db" where
  "deleteAlias name s =
     (aliases s name \<noteq> None, s\<lparr>aliases := (aliases s)(name := None)\<rparr>)"

record resolved =
  r_hash :: string
  r_alias :: "string option"

definition resolveRef :: "string \<Rightarrow> db \<Rightarrow> resolved option" where
  "resolveRef ref s =
     (case getAlias ref s of
        Some a \<Rightarrow> Some \<lparr>r_hash = al_hash a, r_alias = Some ref\<rparr>
      | None \<Rightarrow> if hasBlob ref s then Some \<lparr>r_hash = ref, r_alias = None\<rparr> else None)"

text \<open>
  The writing operations of the store as one datatype, so that "every operation" is a
  quantifier. \<open>apply_op\<close> runs one of them and returns the store it leaves; a
  \<open>recordEvent\<close> whose insert throws leaves the store as it was.
\<close>

datatype store_op =
    PutBlob nat bytes
  | RecordEvent nat event_args
  | SetAlias nat string string
  | DeleteAlias string

fun apply_op :: "(bytes \<Rightarrow> string) \<Rightarrow> store_op \<Rightarrow> db \<Rightarrow> db" where
  "apply_op H (PutBlob now buf) s = snd (putBlob H now buf s)"
| "apply_op H (RecordEvent now a) s =
     (case recordEvent now a s of Inl e \<Rightarrow> s | Inr (i, s') \<Rightarrow> s')"
| "apply_op H (SetAlias now name h) s = snd (setAlias now name h s)"
| "apply_op H (DeleteAlias name) s = snd (deleteAlias name s)"

fun apply_ops :: "(bytes \<Rightarrow> string) \<Rightarrow> store_op list \<Rightarrow> db \<Rightarrow> db" where
  "apply_ops H [] s = s"
| "apply_ops H (x # xs) s = apply_ops H xs (apply_op H x s)"

text \<open>The invariant of the alias registry: every alias names a stored blob.\<close>

definition alias_inv :: "db \<Rightarrow> bool" where
  "alias_inv s = (\<forall>n a. aliases s n = Some a \<longrightarrow> hasBlob (al_hash a) s)"

text \<open>
  No stored blob other than \<open>x\<close> sits under the hash of \<open>x\<close> (the digest is taken to be
  free of collisions on what the store holds).
\<close>

definition no_collision :: "(bytes \<Rightarrow> string) \<Rightarrow> db \<Rightarrow> bytes \<Rightarrow> bool" where
  "no_collision H s x = (case blobs s (H x) of None \<Rightarrow> True | Some row \<Rightarrow> b_data row = x)"

section \<open>The contract validator (validate.js)\<close>

subsection \<open>Reader\<close>

text \<open>
  The reader is a buffer and a position. Reading past the end of a Buffer does not
  throw: \<open>buf[pos]\<close> is \<open>undefined\<close> there (\<open>None\<close> here), and the position still moves.
\<close>

record Reader =
  buf :: bytes
  pos :: nat

definition new_Reader :: "bytes \<Rightarrow> Reader" where
  "new_Reader b = \<lparr>buf = b, pos = 0\<rparr>"

definition Reader_byte :: "Reader \<Rightarrow> u8 option \<times> Reader" where
  "Reader_byte r =
     (if pos r < length (buf r) then Some (buf r ! pos r) else None, r\<lparr>pos := pos r + 1\<rparr>)"

text \<open>\<open>b & m\<close> on a byte that may be \<open>undefined\<close>: \<open>undefined & m\<close> is 0.\<close>

fun js_and :: "u8 option \<Rightarrow> u8 \<Rightarrow> u8" where
  "js_and None m = 0"
| "js_and (Some b) m = b AND m"

text \<open>
  \<open>leb128\<close>: the do-while loop. \<open>result\<close> is a 32-bit integer (\<open>|=\<close> and \<open><<\<close> work on
  32 bits, and \<open><<\<close> takes its shift count modulo 32); \<open>>>> 0\<close> reads it unsigned. The
  loop stops at the first byte without the high bit, and at the end of the buffer, where
  the byte is \<open>undefined\<close>.
\<close>

function Reader_leb128_loop :: "Reader \<Rightarrow> u32 \<Rightarrow> nat \<Rightarrow> u32 \<times> Reader" where
  "Reader_leb128_loop r result shift =
     (case Reader_byte r of (b, r') \<Rightarrow>
        let result' = result OR push_bit (shift mod 32) (ucast (js_and b 0x7f)) in
        if js_and b 0x80 \<noteq> 0 then Reader_leb128_loop r' result' (shift + 7)
        else (result', r'))"
  by pat_completeness auto
termination
  by (relation "measure (\<lambda>(r, result, shift). length (buf r) - pos r)")
     (auto simp: Reader_byte_def split: if_splits)

declare Reader_leb128_loop.simps [simp del]

definition Reader_leb128 :: "Reader \<Rightarrow> u32 \<times> Reader" where
  "Reader_leb128 r = Reader_leb128_loop r 0 0"

definition Reader_u32 :: "Reader \<Rightarrow> u32 \<times> Reader" where
  "Reader_u32 r = Reader_leb128 r"

text \<open>\<open>bytes\<close>: \<open>Buffer.slice\<close> clamps both ends to the buffer.\<close>

definition Reader_bytes :: "nat \<Rightarrow> Reader \<Rightarrow> bytes \<times> Reader" where
  "Reader_bytes n r = (take n (drop (pos r) (buf r)), r\<lparr>pos := pos r + n\<rparr>)"

text \<open>
  \<open>toString("utf-8")\<close>: a JavaScript string is kept as the characters of its UTF-8
  bytes. The names the validator compares with (\<open>memory\<close>, \<open>run\<close>, \<open>_initialize\<close>) are
  ASCII, and only the very same bytes decode to an ASCII string, so the comparisons are
  exact (a byte sequence that is not UTF-8 decodes to replacement characters in
  JavaScript, which this representation does not show).
\<close>

definition toString_utf8 :: "bytes \<Rightarrow> string" where
  "toString_utf8 bs = map (\<lambda>b. char_of (unat b)) bs"

definition Reader_name :: "Reader \<Rightarrow> string \<times> Reader" where
  "Reader_name r =
     (case Reader_u32 r of (len, r1) \<Rightarrow>
      case Reader_bytes (unat len) r1 of (s, r2) \<Rightarrow> (toString_utf8 s, r2))"

definition Reader_skip :: "nat \<Rightarrow> Reader \<Rightarrow> Reader" where
  "Reader_skip n r = r\<lparr>pos := pos r + n\<rparr>"

subsection \<open>Section parsers\<close>

definition wasm_magic :: bytes where
  "wasm_magic = [0x00, 0x61, 0x73, 0x6d]"

text \<open>
  The section loop: an id byte, a LEB128 size, and the payload; a later section with the
  same id overwrites the earlier one. The loop runs while the position is inside the
  buffer, so the id byte is always defined.
\<close>

function parseSections_loop :: "Reader \<Rightarrow> (u8 \<rightharpoonup> bytes) \<Rightarrow> (u8 \<rightharpoonup> bytes)" where
  "parseSections_loop r sections =
     (if pos r < length (buf r) then
        (case Reader_byte r of (sid, r1) \<Rightarrow>
         case Reader_u32 r1 of (sz, r2) \<Rightarrow>
         case Reader_bytes (unat sz) r2 of (payload, r3) \<Rightarrow>
           parseSections_loop r3
             (case sid of None \<Rightarrow> sections | Some i \<Rightarrow> sections(i \<mapsto> payload)))
      else sections)"
  by pat_completeness auto
termination
proof -
  have leb: "buf (snd (Reader_leb128_loop q acc sh)) = buf q
      \<and> pos q < pos (snd (Reader_leb128_loop q acc sh))" for q acc sh
  proof (induction q acc sh rule: Reader_leb128_loop.induct)
    case (1 q acc sh)
    show ?case
    proof (cases "js_and (fst (Reader_byte q)) 0x80 \<noteq> 0")
      case True
      from "1.IH" [OF prod.collapse refl True] show ?thesis
        using True
        by (subst (1 2) Reader_leb128_loop.simps)
           (auto simp: Reader_byte_def Let_def split: prod.splits)
    next
      case False
      then show ?thesis
        by (subst (1 2) Reader_leb128_loop.simps)
           (auto simp: Reader_byte_def Let_def split: prod.splits)
    qed
  qed
  have u32: "buf q' = buf q \<and> pos q < pos q'" if "(v, q') = Reader_u32 q" for q q' v
    using leb [of q 0 0] that [symmetric] by (simp add: Reader_u32_def Reader_leb128_def)
  show ?thesis
    by (relation "measure (\<lambda>(r, sections). length (buf r) - pos r)")
       (auto simp: Reader_byte_def Reader_bytes_def dest!: u32)
qed

declare parseSections_loop.simps [simp del]

definition parseSections :: "bytes \<Rightarrow> exn + (u8 \<rightharpoonup> bytes)" where
  "parseSections b =
     (case Reader_bytes 4 (new_Reader b) of (magic, r1) \<Rightarrow>
        if magic \<noteq> wasm_magic then Inl (Error ''Not a wasm module'')
        else Inr (parseSections_loop (Reader_skip 4 r1) Map.empty))"

text \<open>
  A function type: its parameter and result value types. A type byte read past the end
  of the section is \<open>undefined\<close>.
\<close>

record functype =
  params :: "u8 option list"
  results :: "u8 option list"

text \<open>\<open>for (j = 0; j < n; j++) xs.push(r.byte())\<close>\<close>

fun push_bytes :: "nat \<Rightarrow> Reader \<Rightarrow> u8 option list \<Rightarrow> u8 option list \<times> Reader" where
  "push_bytes 0 r xs = (xs, r)"
| "push_bytes (Suc n) r xs = (case Reader_byte r of (b, r1) \<Rightarrow> push_bytes n r1 (xs @ [b]))"

text \<open>\<open>toString(16)\<close> of a byte: lower case, no padding.\<close>

definition hex_digit :: "nat \<Rightarrow> char" where
  "hex_digit d = ''0123456789abcdef'' ! d"

definition toString16 :: "u8 \<Rightarrow> string" where
  "toString16 b =
     (let n = unat b in
      if n < 16 then [hex_digit n] else [hex_digit (n div 16), hex_digit (n mod 16)])"

text \<open>\<open>x.toString(16)\<close> where \<open>x\<close> may be \<open>undefined\<close>: a TypeError there.\<close>

definition quoted :: "string \<Rightarrow> string" where
  "quoted x = [CHR 0x27] @ x @ [CHR 0x27]"

definition undefined_toString :: exn where
  "undefined_toString =
     TypeError (''Cannot read properties of undefined (reading '' @ quoted ''toString'' @ '')'')"

fun hex_of :: "u8 option \<Rightarrow> exn + string" where
  "hex_of None = Inl undefined_toString"
| "hex_of (Some b) = Inr (''0x'' @ toString16 b)"

fun parseTypes_loop :: "nat \<Rightarrow> Reader \<Rightarrow> functype list \<Rightarrow> exn + functype list" where
  "parseTypes_loop 0 r types = Inr types"
| "parseTypes_loop (Suc n) r types =
     (case Reader_byte r of (tag, r1) \<Rightarrow>
        if tag \<noteq> Some 0x60 then
          (case hex_of tag of Inl e \<Rightarrow> Inl e
           | Inr h \<Rightarrow> Inl (Error (''Unexpected type tag: '' @ h)))
        else
          (case Reader_u32 r1 of (paramCount, r2) \<Rightarrow>
           case push_bytes (unat paramCount) r2 [] of (ps, r3) \<Rightarrow>
           case Reader_u32 r3 of (resultCount, r4) \<Rightarrow>
           case push_bytes (unat resultCount) r4 [] of (rs, r5) \<Rightarrow>
             parseTypes_loop n r5 (types @ [\<lparr>params = ps, results = rs\<rparr>])))"

definition parseTypes :: "bytes \<Rightarrow> exn + functype list" where
  "parseTypes b =
     (case Reader_u32 (new_Reader b) of (count, r) \<Rightarrow> parseTypes_loop (unat count) r [])"

text \<open>
  Imports: only the number of function imports is kept. \<open>r.buf[r.pos-1]\<close> looks back at
  the byte just read.
\<close>

definition buf_at :: "Reader \<Rightarrow> nat \<Rightarrow> u8 option" where
  "buf_at r i = (if i < length (buf r) then Some (buf r ! i) else None)"

fun parseImports_loop :: "nat \<Rightarrow> Reader \<Rightarrow> nat \<Rightarrow> nat" where
  "parseImports_loop 0 r funcImports = funcImports"
| "parseImports_loop (Suc n) r funcImports =
     (case Reader_name r of (m, r1) \<Rightarrow>
      case Reader_name r1 of (nm, r2) \<Rightarrow>
      case Reader_byte r2 of (kind, r3) \<Rightarrow>
        if kind = Some 0 then
          (case Reader_u32 r3 of (t, r4) \<Rightarrow> parseImports_loop n r4 (funcImports + 1))
        else if kind = Some 1 then
          (case Reader_byte r3 of (t, r4) \<Rightarrow>
           case Reader_u32 r4 of (l, r5) \<Rightarrow> parseImports_loop n r5 funcImports)
        else if kind = Some 2 then
          (case Reader_byte r3 of (t, r4) \<Rightarrow>
           case Reader_u32 r4 of (l, r5) \<Rightarrow>
             if buf_at r5 (pos r5 - 1) = Some 1
             then (case Reader_u32 r5 of (l2, r6) \<Rightarrow> parseImports_loop n r6 funcImports)
             else parseImports_loop n r5 funcImports)
        else if kind = Some 3 then
          (case Reader_byte r3 of (t, r4) \<Rightarrow>
           case Reader_byte r4 of (mu, r5) \<Rightarrow> parseImports_loop n r5 funcImports)
        else parseImports_loop n r3 funcImports)"

definition parseImports :: "bytes \<Rightarrow> nat" where
  "parseImports b =
     (case Reader_u32 (new_Reader b) of (count, r) \<Rightarrow> parseImports_loop (unat count) r 0)"

fun parseFunctions_loop :: "nat \<Rightarrow> Reader \<Rightarrow> u32 list \<Rightarrow> u32 list" where
  "parseFunctions_loop 0 r typeIndices = typeIndices"
| "parseFunctions_loop (Suc n) r typeIndices =
     (case Reader_u32 r of (t, r1) \<Rightarrow> parseFunctions_loop n r1 (typeIndices @ [t]))"

definition parseFunctions :: "bytes \<Rightarrow> u32 list" where
  "parseFunctions b =
     (case Reader_u32 (new_Reader b) of (count, r) \<Rightarrow> parseFunctions_loop (unat count) r [])"

record export =
  exp_name :: string
  exp_kind :: "u8 option"
  exp_index :: u32

fun parseExports_loop :: "nat \<Rightarrow> Reader \<Rightarrow> export list \<Rightarrow> export list" where
  "parseExports_loop 0 r exports = exports"
| "parseExports_loop (Suc n) r exports =
     (case Reader_name r of (nm, r1) \<Rightarrow>
      case Reader_byte r1 of (kind, r2) \<Rightarrow>
      case Reader_u32 r2 of (idx, r3) \<Rightarrow>
        parseExports_loop n r3 (exports @ [\<lparr>exp_name = nm, exp_kind = kind, exp_index = idx\<rparr>]))"

definition parseExports :: "bytes \<Rightarrow> export list" where
  "parseExports b =
     (case Reader_u32 (new_Reader b) of (count, r) \<Rightarrow> parseExports_loop (unat count) r [])"

subsection \<open>validate\<close>

definition SECTION_TYPE :: u8 where "SECTION_TYPE = 1"
definition SECTION_IMPORT :: u8 where "SECTION_IMPORT = 2"
definition SECTION_FUNCTION :: u8 where "SECTION_FUNCTION = 3"
definition SECTION_EXPORT :: u8 where "SECTION_EXPORT = 7"
definition TYPE_I32 :: u8 where "TYPE_I32 = 0x7f"
definition EXPORT_FUNC :: u8 where "EXPORT_FUNC = 0"
definition EXPORT_MEMORY :: u8 where "EXPORT_MEMORY = 2"

definition EXPECTED_PARAMS :: "u8 list" where
  "EXPECTED_PARAMS = [TYPE_I32, TYPE_I32, TYPE_I32]"

definition EXPECTED_RESULTS :: "u8 list" where
  "EXPECTED_RESULTS = [TYPE_I32]"

fun typeName :: "u8 option \<Rightarrow> exn + string" where
  "typeName t =
     (if t = Some TYPE_I32 then Inr ''i32''
      else if t = Some 0x7e then Inr ''i64''
      else if t = Some 0x7d then Inr ''f32''
      else if t = Some 0x7c then Inr ''f64''
      else hex_of t)"

text \<open>\<open>xs.map(typeName)\<close>: the first element that throws ends the map.\<close>

fun map_typeName :: "u8 option list \<Rightarrow> exn + string list" where
  "map_typeName [] = Inr []"
| "map_typeName (t # ts) =
     (case typeName t of Inl e \<Rightarrow> Inl e
      | Inr n \<Rightarrow> (case map_typeName ts of Inl e \<Rightarrow> Inl e | Inr ns \<Rightarrow> Inr (n # ns)))"

fun join :: "string \<Rightarrow> string list \<Rightarrow> string" where
  "join sep [] = []"
| "join sep [x] = x"
| "join sep (x # y # ys) = x @ sep @ join sep (y # ys)"

definition formatSig :: "functype \<Rightarrow> exn + string" where
  "formatSig ty =
     (case map_typeName (params ty) of Inl e \<Rightarrow> Inl e
      | Inr ps \<Rightarrow>
     (case map_typeName (results ty) of Inl e \<Rightarrow> Inl e
      | Inr rs \<Rightarrow> Inr (''('' @ join '', '' ps @ '') -> ('' @ join '', '' rs @ '')'')))"

text \<open>Decimal digits of a number, as a template literal prints it.\<close>

function decimal :: "nat \<Rightarrow> string" where
  "decimal n =
     (if n < 10 then [''0123456789'' ! n]
      else decimal (n div 10) @ [''0123456789'' ! (n mod 10)])"
  by pat_completeness auto
termination
  by (relation "measure id") auto

declare decimal.simps [simp del]

record info =
  info_exports :: "(string \<times> (u8 option \<times> u32)) list"
  runSignature :: "string option"

record validation =
  valid :: bool
  errors :: "string list"
  warnings :: "string list"
  info :: info

text \<open>\<open>xs[i]\<close> on an array: \<open>undefined\<close> out of range.\<close>

definition array_at :: "'a list \<Rightarrow> nat \<Rightarrow> 'a option" where
  "array_at xs i = (if i < length xs then Some (xs ! i) else None)"

text \<open>
  \<open>xs.length === expected.length && xs.every((x, i) => x === expected[i])\<close>: the
  indices are in range of \<open>expected\<close> once the lengths agree.
\<close>

definition every_equal :: "u8 option list \<Rightarrow> u8 list \<Rightarrow> bool" where
  "every_equal xs expected =
     (length xs = length expected
      \<and> list_all (\<lambda>(x, i). x = array_at expected i) (zip xs [0..<length xs]))"

definition knownExports :: "string set" where
  "knownExports = {''memory'', ''run'', ''_initialize''}"

definition extra_warnings :: "export list \<Rightarrow> string list" where
  "extra_warnings exports =
     map (\<lambda>e. ''Extra export: '' @ exp_name e)
       (filter (\<lambda>e. exp_name e \<notin> knownExports) exports)"

text \<open>
  The check of the \<open>run\<close> export, the \<open>else\<close> branch of \<open>if (!runExport)\<close>: the errors
  it pushes and the signature it records in \<open>info\<close>. \<open>localIndex\<close> is a difference of
  two numbers and may be negative.
\<close>

definition check_run ::
  "functype list \<Rightarrow> nat \<Rightarrow> u32 list \<Rightarrow> export \<Rightarrow> exn + (string list \<times> string option)" where
  "check_run types funcImports funcTypeIndices runExport =
     (let localIndex = int (unat (exp_index runExport)) - int funcImports in
      if localIndex < 0 \<or> localIndex \<ge> int (length funcTypeIndices) then
        Inr ([''Cannot resolve type for run (func index ''
               @ decimal (unat (exp_index runExport)) @ '')''], None)
      else
        let typeIdx = funcTypeIndices ! nat localIndex in
        case array_at types (unat typeIdx) of
          None \<Rightarrow>
            Inr ([''Cannot resolve type index '' @ decimal (unat typeIdx) @ '' for run''], None)
        | Some ty \<Rightarrow>
            (case formatSig ty of Inl e \<Rightarrow> Inl e
             | Inr sg \<Rightarrow>
                 let paramsOk = every_equal (params ty) EXPECTED_PARAMS;
                     resultsOk = every_equal (results ty) EXPECTED_RESULTS
                 in if \<not> paramsOk \<or> \<not> resultsOk
                    then Inr ([''Wrong signature for run: got '' @ sg
                                @ '', expected (i32, i32, i32) -> (i32)''], Some sg)
                    else Inr ([], Some sg)))"

text \<open>
  Everything in \<open>validate\<close> after the four sections are parsed: \<open>info.exports\<close>, the
  memory check, the run check, the warnings and the result.
\<close>

definition check_exports ::
  "functype list \<Rightarrow> nat \<Rightarrow> u32 list \<Rightarrow> export list \<Rightarrow> exn + validation" where
  "check_exports types funcImports funcTypeIndices exports =
     (let infoExports = fold (\<lambda>e m. AList.update (exp_name e) (exp_kind e, exp_index e) m) exports [];
          memExport = find (\<lambda>e. exp_name e = ''memory'' \<and> exp_kind e = Some EXPORT_MEMORY) exports;
          errors1 = (if memExport = None then [''Missing export: memory (kind: memory)''] else []);
          runExport = find (\<lambda>e. exp_name e = ''run'' \<and> exp_kind e = Some EXPORT_FUNC) exports
      in case (case runExport of
                 None \<Rightarrow> Inr ([''Missing export: run (kind: function)''], None)
               | Some re \<Rightarrow> check_run types funcImports funcTypeIndices re) of
           Inl e \<Rightarrow> Inl e
         | Inr (errors2, sg) \<Rightarrow>
             Inr \<lparr>valid = (length (errors1 @ errors2) = 0),
                  errors = errors1 @ errors2,
                  warnings = extra_warnings exports,
                  info = \<lparr>info_exports = infoExports, runSignature = sg\<rparr>\<rparr>)"

text \<open>
  \<open>validate\<close>: only \<open>parseSections\<close> runs inside the \<open>try\<close>; the four section parsers
  run after it (\<open>sections[ID] ? parse(sections[ID]) : default\<close>), so what they throw
  leaves \<open>validate\<close> as an exception (\<open>Inl\<close>). A section is present when its key is in
  \<open>sections\<close> (a Buffer is truthy, also an empty one).
\<close>

definition section_types :: "(u8 \<rightharpoonup> bytes) \<Rightarrow> exn + functype list" where
  "section_types sections =
     (case sections SECTION_TYPE of None \<Rightarrow> Inr [] | Some p \<Rightarrow> parseTypes p)"

definition section_funcImports :: "(u8 \<rightharpoonup> bytes) \<Rightarrow> nat" where
  "section_funcImports sections =
     (case sections SECTION_IMPORT of None \<Rightarrow> 0 | Some p \<Rightarrow> parseImports p)"

definition section_funcTypeIndices :: "(u8 \<rightharpoonup> bytes) \<Rightarrow> u32 list" where
  "section_funcTypeIndices sections =
     (case sections SECTION_FUNCTION of None \<Rightarrow> [] | Some p \<Rightarrow> parseFunctions p)"

definition section_exports :: "(u8 \<rightharpoonup> bytes) \<Rightarrow> export list" where
  "section_exports sections =
     (case sections SECTION_EXPORT of None \<Rightarrow> [] | Some p \<Rightarrow> parseExports p)"

definition validate :: "bytes \<Rightarrow> exn + validation" where
  "validate wasmBytes =
     (case parseSections wasmBytes of
        Inl e \<Rightarrow>
          Inr \<lparr>valid = False, errors = [''Invalid wasm binary: '' @ message e], warnings = [],
               info = \<lparr>info_exports = [], runSignature = None\<rparr>\<rparr>
      | Inr sections \<Rightarrow>
          (case section_types sections of
             Inl e \<Rightarrow> Inl e
           | Inr types \<Rightarrow>
               check_exports types (section_funcImports sections)
                 (section_funcTypeIndices sections) (section_exports sections)))"

section \<open>The execution harness (server.js)\<close>

definition INPUT_PTR :: nat where "INPUT_PTR = 0"
definition OUTPUT_PTR :: nat where "OUTPUT_PTR = 65536"
definition MAX_OUTPUT :: nat where "MAX_OUTPUT = 65536"

text \<open>
  The WebAssembly runtime is not part of the repository. An instantiated module is what
  the harness sees of it: the exported memory (its bytes, a whole number of 64 KiB pages,
  and its declared maximum in pages), and the exports \<open>_initialize\<close> and \<open>run\<close> as
  functions on the memory that either trap or return. \<open>run\<close> is taken to have an
  \<open>i32\<close> result, which JavaScript receives as a signed number.
\<close>

record wasm_instance =
  exp_memory :: "bytes option"
  memory_maximum :: "nat option"
  exp_initialize :: "(bytes \<Rightarrow> exn + bytes) option"
  exp_run :: "(bytes \<Rightarrow> u32 \<Rightarrow> u32 \<Rightarrow> u32 \<Rightarrow> exn + (u32 \<times> bytes)) option"

definition memory_grow :: "wasm_instance \<Rightarrow> bytes \<Rightarrow> nat \<Rightarrow> exn + bytes" where
  "memory_grow inst mem delta =
     (if length mem div 65536 + delta
           > (case memory_maximum inst of None \<Rightarrow> 65536 | Some m \<Rightarrow> m)
      then Inl (RangeError ''WebAssembly.Memory.grow(): Maximum memory size exceeded'')
      else Inr (mem @ replicate (delta * 65536) 0))"

text \<open>\<open>mem.set(src, offset)\<close> throws when the source does not fit.\<close>

definition TypedArray_set :: "bytes \<Rightarrow> bytes \<Rightarrow> nat \<Rightarrow> exn + bytes" where
  "TypedArray_set mem src offset =
     (if offset + length src > length mem then Inl (RangeError ''offset is out of bounds'')
      else Inr (take offset mem @ src @ drop (offset + length src) mem))"

text \<open>
  \<open>mem.slice(start, end)\<close>: a negative index counts from the end, and both indices are
  clamped to the array; the result is a copy.
\<close>

definition TypedArray_slice :: "bytes \<Rightarrow> int \<Rightarrow> int \<Rightarrow> bytes" where
  "TypedArray_slice mem start fin =
     (let len = int (length mem);
          k = (if start < 0 then max (len + start) 0 else min start len);
          final = (if fin < 0 then max (len + fin) 0 else min fin len)
      in take (nat (final - k)) (drop (nat k) mem))"

text \<open>
  \<open>executeModule\<close> up to and including the call of \<open>run\<close>: the value \<open>run\<close> returned
  and the memory it left.
\<close>

definition invoke_run ::
  "(bytes \<Rightarrow> exn + wasm_instance) \<Rightarrow> bytes \<Rightarrow> bytes \<Rightarrow> exn + (u32 \<times> bytes)" where
  "invoke_run W wasmBytes inputBytes =
     (case W wasmBytes of Inl e \<Rightarrow> Inl e | Inr inst \<Rightarrow>
      case exp_run inst of
        None \<Rightarrow> Inl (Error (''Module does not export '' @ quoted ''run''))
      | Some run \<Rightarrow>
      case exp_memory inst of
        None \<Rightarrow> Inl (Error (''Module does not export '' @ quoted ''memory''))
      | Some mem0 \<Rightarrow>
      case (case exp_initialize inst of None \<Rightarrow> Inr mem0 | Some init \<Rightarrow> init mem0) of
        Inl e \<Rightarrow> Inl e
      | Inr mem1 \<Rightarrow>
      let needed = (OUTPUT_PTR + MAX_OUTPUT + 65535) div 65536;
          current = length mem1 div 65536
      in
      case (if current < needed then memory_grow inst mem1 (needed - current) else Inr mem1) of
        Inl e \<Rightarrow> Inl e
      | Inr mem2 \<Rightarrow>
      case TypedArray_set mem2 inputBytes INPUT_PTR of
        Inl e \<Rightarrow> Inl e
      | Inr mem3 \<Rightarrow>
          run mem3 (of_nat INPUT_PTR) (of_nat (length inputBytes)) (of_nat OUTPUT_PTR))"

text \<open>
  The last two lines: \<open>outputLen\<close> is the number JavaScript got for the \<open>i32\<close>, its
  signed value, and the output is the slice from \<open>OUTPUT_PTR\<close> to
  \<open>OUTPUT_PTR + outputLen\<close>. No line compares \<open>outputLen\<close> with \<open>MAX_OUTPUT\<close>.
\<close>

definition executeModule :: "(bytes \<Rightarrow> exn + wasm_instance) \<Rightarrow> bytes \<Rightarrow> bytes \<Rightarrow> exn + bytes" where
  "executeModule W wasmBytes inputBytes =
     (case invoke_run W wasmBytes inputBytes of
        Inl e \<Rightarrow> Inl e
      | Inr (outputLen, outMem) \<Rightarrow>
          Inr (TypedArray_slice outMem (int OUTPUT_PTR) (int OUTPUT_PTR + sint outputLen)))"

section \<open>The routes (server.js)\<close>

datatype body = Json "(string \<times> string) list" | Bytes bytes | NoBody

record response =
  status :: nat
  headers :: "(string \<times> string) list"
  body :: body

definition json_error :: "nat \<Rightarrow> (string \<times> string) list \<Rightarrow> response" where
  "json_error code kvs = \<lparr>status = code, headers = [], body = Json kvs\<rparr>"

text \<open>\<open>if (resolved.alias) store.recordEvent({type: "resolve", ...})\<close>\<close>

definition record_resolve :: "nat \<Rightarrow> resolved \<Rightarrow> db \<Rightarrow> exn + db" where
  "record_resolve now res s =
     (case str_or_null (r_alias res) of
        None \<Rightarrow> Inr s
      | Some a \<Rightarrow>
          (case recordEvent now
                  (no_args\<lparr>type := Some ''resolve'', aliasName := Some a,
                     outputHash := Some (r_hash res), success := True\<rparr>) s of
             Inl e \<Rightarrow> Inl e
           | Inr (i, s') \<Rightarrow> Inr s'))"

text \<open>\<open>PUT /alias/:name\<close>; \<open>hash\<close> is the field of the JSON body, \<open>undefined\<close> when absent.\<close>

definition put_alias_route ::
  "nat \<Rightarrow> string \<Rightarrow> string option \<Rightarrow> db \<Rightarrow> (exn + response) \<times> db" where
  "put_alias_route now nm hash s =
     (case str_or_null hash of
        None \<Rightarrow> (Inr (json_error 400 [(''error'', ''Missing hash in body'')]), s)
      | Some h \<Rightarrow>
          (case setAlias now nm h s of
             (None, s1) \<Rightarrow> (Inr (json_error 400 [(''error'', ''Blob not found for hash'')]), s1)
           | (Some (n, h'), s1) \<Rightarrow>
               (case recordEvent now
                       (no_args\<lparr>type := Some ''alias'', aliasName := Some nm,
                          outputHash := Some h, success := True\<rparr>) s1 of
                  Inl e \<Rightarrow> (Inl e, s1)
                | Inr (i, s2) \<Rightarrow>
                    (Inr \<lparr>status = 200, headers = [],
                          body = Json [(''name'', n), (''hash'', h')]\<rparr>, s2))))"

text \<open>
  \<open>POST /run/:ref\<close> from \<open>const t0 = Date.now()\<close> on: the \<open>try\<close> block and its \<open>catch\<close>.
  \<open>t0\<close> and \<open>t1\<close> are the two readings of the clock. What the \<open>try\<close> block wrote to the
  store before it threw stays written.
\<close>

definition run_try ::
  "(bytes \<Rightarrow> string) \<Rightarrow> (bytes \<Rightarrow> exn + wasm_instance) \<Rightarrow> nat \<Rightarrow> int \<Rightarrow> int
     \<Rightarrow> string \<Rightarrow> bytes \<Rightarrow> string \<Rightarrow> bytes \<Rightarrow> db \<Rightarrow> (exn + response) \<times> db" where
  "run_try H W now t0 t1 mHash wasmBytes iHash inputBytes s =
     (case executeModule W wasmBytes inputBytes of
        Inl err \<Rightarrow> (Inl err, s)
      | Inr output \<Rightarrow>
          (case putBlob H now output s of (oHash, s1) \<Rightarrow>
           case recordEvent now
                  (no_args\<lparr>type := Some ''execute'', moduleHash := Some mHash,
                     inputHash := Some iHash, outputHash := Some oHash,
                     outputSize := Some (int (length output)), durationMs := Some (t1 - t0),
                     success := True\<rparr>) s1 of
             Inl err \<Rightarrow> (Inl err, s1)
           | Inr (i, s2) \<Rightarrow>
               (Inr \<lparr>status = 200,
                     headers = [(''Content-Type'', ''application/octet-stream''),
                                (''X-Module-Hash'', mHash), (''X-Input-Hash'', iHash),
                                (''X-Output-Hash'', oHash)],
                     body = Bytes output\<rparr>, s2)))"

definition run_catch ::
  "nat \<Rightarrow> int \<Rightarrow> int \<Rightarrow> string \<Rightarrow> string \<Rightarrow> exn \<Rightarrow> db \<Rightarrow> (exn + response) \<times> db" where
  "run_catch now t0 t1 mHash iHash err s =
     (case recordEvent now
             (no_args\<lparr>type := Some ''execute'', moduleHash := Some mHash,
                inputHash := Some iHash, durationMs := Some (t1 - t0),
                success := False, error := Some (message err)\<rparr>) s of
        Inl e \<Rightarrow> (Inl e, s)
      | Inr (i, s') \<Rightarrow>
          (Inr (json_error 400 [(''error'', ''Execution failed''), (''message'', message err)]),
           s'))"

definition run_execute ::
  "(bytes \<Rightarrow> string) \<Rightarrow> (bytes \<Rightarrow> exn + wasm_instance) \<Rightarrow> nat \<Rightarrow> int \<Rightarrow> int
     \<Rightarrow> string \<Rightarrow> bytes \<Rightarrow> string \<Rightarrow> bytes \<Rightarrow> db \<Rightarrow> (exn + response) \<times> db" where
  "run_execute H W now t0 t1 mHash wasmBytes iHash inputBytes s =
     (case run_try H W now t0 t1 mHash wasmBytes iHash inputBytes s of
        (Inr resp, s') \<Rightarrow> (Inr resp, s')
      | (Inl err, s') \<Rightarrow> run_catch now t0 t1 mHash iHash err s')"

text \<open>
  \<open>POST /run/:ref\<close>. \<open>inputRef\<close> is \<open>req.query.input\<close>, \<open>reqBody\<close> the raw body. An
  exception outside the \<open>try\<close> leaves the handler (\<open>Inl\<close>).
\<close>

definition run_route ::
  "(bytes \<Rightarrow> string) \<Rightarrow> (bytes \<Rightarrow> exn + wasm_instance) \<Rightarrow> nat \<Rightarrow> int \<Rightarrow> int
     \<Rightarrow> string \<Rightarrow> string option \<Rightarrow> bytes \<Rightarrow> db \<Rightarrow> (exn + response) \<times> db" where
  "run_route H W now t0 t1 ref inputRef reqBody s =
     (case resolveRef ref s of
        None \<Rightarrow> (Inr (json_error 404 [(''error'', ''Module not found: '' @ ref)]), s)
      | Some moduleResolved \<Rightarrow>
      case record_resolve now moduleResolved s of
        Inl e \<Rightarrow> (Inl e, s)
      | Inr s1 \<Rightarrow>
      let mHash = r_hash moduleResolved in
      case getBlob mHash s1 of
        None \<Rightarrow> (Inr (json_error 404 [(''error'', ''Module blob not found'')]), s1)
      | Some wasmBytes \<Rightarrow>
      case str_or_null inputRef of
        Some iref \<Rightarrow>
          (case resolveRef iref s1 of
             None \<Rightarrow> (Inr (json_error 404 [(''error'', ''Input not found: '' @ iref)]), s1)
           | Some inputResolved \<Rightarrow>
           case record_resolve now inputResolved s1 of
             Inl e \<Rightarrow> (Inl e, s1)
           | Inr s2 \<Rightarrow>
           case getBlob (r_hash inputResolved) s2 of
             None \<Rightarrow> (Inr (json_error 404 [(''error'', ''Input blob not found'')]), s2)
           | Some inputBytes \<Rightarrow>
               run_execute H W now t0 t1 mHash wasmBytes (r_hash inputResolved) inputBytes s2)
      | None \<Rightarrow>
          (case putBlob H now reqBody s1 of (iHash, s2) \<Rightarrow>
             run_execute H W now t0 t1 mHash wasmBytes iHash reqBody s2))"

subsection \<open>Compile\<close>

text \<open>
  What the \<open>catch\<close> of the compile route reads from a thrown value: \<open>message\<close>, and the
  \<open>stderr\<close> and \<open>stdout\<close> that \<open>exec\<close> attaches to its errors (\<open>undefined\<close> on any other).
\<close>

record thrown =
  t_message :: string
  t_stderr :: "string option"
  t_stdout :: "string option"

definition thrown_of :: "exn \<Rightarrow> thrown" where
  "thrown_of e = \<lparr>t_message = message e, t_stderr = None, t_stdout = None\<rparr>"

definition languages :: "string list" where
  "languages = [''assemblyscript'', ''tinygo'', ''zig'']"

text \<open>\<open>Buffer.from(string)\<close>: the UTF-8 bytes of the string.\<close>

definition Buffer_from :: "string \<Rightarrow> bytes" where
  "Buffer_from x = map (\<lambda>c. of_nat (of_char c)) x"

text \<open>
  \<open>JSON.stringify\<close> of an array of strings: each string in double quotes, with the
  escapes of the language (the quote, the backslash, and the control characters below
  U+0020), separated by commas, in brackets.
\<close>

definition dquote :: char where "dquote = CHR 0x22"
definition backslash :: char where "backslash = CHR 0x5C"

definition json_escape :: "char \<Rightarrow> string" where
  "json_escape c =
     (let n = (of_char c :: nat) in
      if n = 0x22 then [backslash, dquote]
      else if n = 0x5C then [backslash, backslash]
      else if n = 8 then [backslash, CHR ''b'']
      else if n = 12 then [backslash, CHR ''f'']
      else if n = 10 then [backslash, CHR ''n'']
      else if n = 13 then [backslash, CHR ''r'']
      else if n = 9 then [backslash, CHR ''t'']
      else if n < 32 then [backslash] @ ''u00'' @ [hex_digit (n div 16), hex_digit (n mod 16)]
      else [c])"

definition JSON_stringify :: "string list \<Rightarrow> string" where
  "JSON_stringify xs =
     ''['' @ join '','' (map (\<lambda>x. [dquote] @ concat (map json_escape x) @ [dquote]) xs) @ '']''"

text \<open>
  \<open>res.set(name, value)\<close> throws a TypeError when the value holds a character that is
  not a tab, a printable ASCII character or a character from U+0080 to U+00FF. On the
  UTF-8 bytes of the value: a byte \<open>0x09\<close> or \<open>0x20..0x7E\<close>, or a lead byte \<open>0xC2\<close> or
  \<open>0xC3\<close> with its continuation byte. The hashes and the words \<open>true\<close> and \<open>false\<close>
  pass; the two values made by \<open>JSON.stringify\<close> are the ones that can fail.
\<close>

fun header_value_ok :: "string \<Rightarrow> bool" where
  "header_value_ok [] = True"
| "header_value_ok [c] = ((of_char c :: nat) = 9 \<or> (32 \<le> (of_char c :: nat) \<and> (of_char c :: nat) \<le> 126))"
| "header_value_ok (c # d # cs) =
     (if (of_char c :: nat) = 9 \<or> (32 \<le> (of_char c :: nat) \<and> (of_char c :: nat) \<le> 126)
      then header_value_ok (d # cs)
      else ((of_char c :: nat) = 0xC2 \<or> (of_char c :: nat) = 0xC3)
           \<and> 0x80 \<le> (of_char d :: nat) \<and> (of_char d :: nat) \<le> 0xBF
           \<and> header_value_ok cs)"

definition res_set :: "string \<Rightarrow> string \<Rightarrow> (string \<times> string) list \<Rightarrow> exn + (string \<times> string) list" where
  "res_set name v hs =
     (if header_value_ok v then Inr (hs @ [(name, v)])
      else Inl (TypeError (''Invalid character in header content ['' @ [dquote] @ name
                             @ [dquote] @ '']'')))"

text \<open>
  The \<open>try\<close> block of \<open>POST /compile/:language\<close>. \<open>T\<close> is the toolchain: the scratch
  directory, the compiler's subprocess and the read of its output file, which give the
  module bytes or throw. The success event is written before the headers are set, so a
  header that throws leaves it in the log.
\<close>

definition compile_try ::
  "(bytes \<Rightarrow> string) \<Rightarrow> (string \<Rightarrow> string \<Rightarrow> thrown + bytes)
     \<Rightarrow> nat \<Rightarrow> int \<Rightarrow> int \<Rightarrow> string \<Rightarrow> string \<Rightarrow> string \<Rightarrow> db
     \<Rightarrow> (thrown + response) \<times> db" where
  "compile_try H T now t0 t1 lang source iHash s =
     (case T lang source of
        Inl err \<Rightarrow> (Inl err, s)
      | Inr wasm \<Rightarrow>
          (case putBlob H now wasm s of (oHash, s1) \<Rightarrow>
           case validate wasm of
             Inl e \<Rightarrow> (Inl (thrown_of e), s1)
           | Inr validation \<Rightarrow>
           case recordEvent now
                  (no_args\<lparr>type := Some ''compile'', language := Some lang,
                     inputHash := Some iHash, outputHash := Some oHash,
                     outputSize := Some (int (length wasm)), durationMs := Some (t1 - t0),
                     success := True\<rparr>) s1 of
             Inl e \<Rightarrow> (Inl (thrown_of e), s1)
           | Inr (i, s2) \<Rightarrow>
           let hs = [(''Content-Type'', ''application/wasm''),
                     (''X-Input-Hash'', iHash), (''X-Output-Hash'', oHash),
                     (''X-Contract-Valid'', if valid validation then ''true'' else ''false'')]
           in
           case (if \<not> valid validation
                 then res_set ''X-Contract-Errors'' (JSON_stringify (errors validation)) hs
                 else Inr hs) of
             Inl e \<Rightarrow> (Inl (thrown_of e), s2)
           | Inr hs1 \<Rightarrow>
           case (if length (warnings validation) \<noteq> 0
                 then res_set ''X-Contract-Warnings'' (JSON_stringify (warnings validation)) hs1
                 else Inr hs1) of
             Inl e \<Rightarrow> (Inl (thrown_of e), s2)
           | Inr hs2 \<Rightarrow>
               (Inr \<lparr>status = 200, headers = hs2, body = Bytes wasm\<rparr>, s2)))"

definition compile_catch ::
  "nat \<Rightarrow> int \<Rightarrow> int \<Rightarrow> string \<Rightarrow> string \<Rightarrow> thrown \<Rightarrow> db \<Rightarrow> (thrown + response) \<times> db" where
  "compile_catch now t0 t1 lang iHash err s =
     (let errorMsg = (case str_or_null (t_stderr err) of None \<Rightarrow> t_message err | Some x \<Rightarrow> x) in
      case recordEvent now
             (no_args\<lparr>type := Some ''compile'', language := Some lang,
                inputHash := Some iHash, durationMs := Some (t1 - t0),
                success := False, error := Some errorMsg\<rparr>) s of
        Inl e \<Rightarrow> (Inl (thrown_of e), s)
      | Inr (i, s') \<Rightarrow>
          (Inr (json_error 400
                  [(''error'', ''Compilation failed''), (''stderr'', errorMsg),
                   (''stdout'', case str_or_null (t_stdout err) of None \<Rightarrow> [] | Some x \<Rightarrow> x)]),
           s'))"

text \<open>
  \<open>compilers[lang]\<close> is truthy for the three compilers and for the members that every
  object inherits from \<open>Object.prototype\<close>. For those \<open>T\<close> stands for what calling
  the member gives: a value that \<open>putBlob\<close> and the validator turn into bytes, or a
  throw (of the call, or of the conversion).
\<close>

definition Object_prototype_members :: "string list" where
  "Object_prototype_members =
     [''constructor'', ''__defineGetter__'', ''__defineSetter__'', ''hasOwnProperty'',
      ''__lookupGetter__'', ''__lookupSetter__'', ''isPrototypeOf'', ''propertyIsEnumerable'',
      ''toString'', ''valueOf'', ''__proto__'', ''toLocaleString'']"

definition compile_route ::
  "(bytes \<Rightarrow> string) \<Rightarrow> (string \<Rightarrow> string \<Rightarrow> thrown + bytes)
     \<Rightarrow> nat \<Rightarrow> int \<Rightarrow> int \<Rightarrow> string \<Rightarrow> string option \<Rightarrow> db
     \<Rightarrow> (thrown + response) \<times> db" where
  "compile_route H T now t0 t1 lang reqBody s =
     (if lang \<notin> set languages \<and> lang \<notin> set Object_prototype_members then
        (Inr (json_error 400
           [(''error'', ''Unknown language: '' @ lang @ ''. Supported: '' @ join '', '' languages)]),
         s)
      else
        case str_or_null reqBody of
          None \<Rightarrow>
            (Inr (json_error 400 [(''error'', ''Request body must contain source code'')]), s)
        | Some source \<Rightarrow>
            (case putBlob H now (Buffer_from source) s of (iHash, s1) \<Rightarrow>
             case compile_try H T now t0 t1 lang source iHash s1 of
               (Inr resp, s') \<Rightarrow> (Inr resp, s')
             | (Inl err, s') \<Rightarrow> compile_catch now t0 t1 lang iHash err s'))"

section \<open>Examples\<close>

text \<open>
  A stand-in for the digest in the examples: injective and never empty. And an instance
  with \<open>n\<close> pages of zeroed memory whose \<open>run\<close> writes nothing and returns \<open>r\<close>.
\<close>

definition demo_hash :: "bytes \<Rightarrow> string" where
  "demo_hash b = ''#'' @ toString_utf8 b"

definition const_instance :: "nat \<Rightarrow> u32 \<Rightarrow> wasm_instance" where
  "const_instance n r =
     \<lparr>exp_memory = Some (replicate (n * 65536) 0), memory_maximum = None,
      exp_initialize = None, exp_run = Some (\<lambda>mem ip il op. Inr (r, mem))\<rparr>"

text \<open>
  Two runtimes: one that instantiates every module as that instance, and one that
  rejects every module at \<open>WebAssembly.compile\<close>.
\<close>

definition const_runtime :: "nat \<Rightarrow> u32 \<Rightarrow> bytes \<Rightarrow> exn + wasm_instance" where
  "const_runtime n r w = Inr (const_instance n r)"

definition failing_runtime :: "bytes \<Rightarrow> exn + wasm_instance" where
  "failing_runtime w = Inl (WasmError ''WebAssembly.compile()'')"

text \<open>
  Two outputs of a toolchain. The first has a Type section whose only type begins with
  the tag \<open>0x00\<close>. The second meets the contract and has a third export, a function named
  with the Greek letter lambda (U+03BB, the bytes \<open>CE BB\<close>).
\<close>

definition bad_tag_module :: bytes where
  "bad_tag_module = [0x00, 0x61, 0x73, 0x6d, 0x01, 0x00, 0x00, 0x00, 0x01, 0x02, 0x01, 0x00]"

definition lambda_module :: bytes where
  "lambda_module =
     [0x00, 0x61, 0x73, 0x6d, 0x01, 0x00, 0x00, 0x00,
      0x01, 0x08, 0x01, 0x60, 0x03, 0x7f, 0x7f, 0x7f, 0x01, 0x7f,
      0x03, 0x02, 0x01, 0x00,
      0x05, 0x03, 0x01, 0x00, 0x01,
      0x07, 0x15, 0x03, 0x06, 0x6d, 0x65, 0x6d, 0x6f, 0x72, 0x79, 0x02, 0x00,
                        0x03, 0x72, 0x75, 0x6e, 0x00, 0x00,
                        0x02, 0xce, 0xbb, 0x00, 0x00,
      0x0a, 0x06, 0x01, 0x04, 0x00, 0x41, 0x00, 0x0b]"

definition const_toolchain :: "bytes \<Rightarrow> string \<Rightarrow> string \<Rightarrow> thrown + bytes" where
  "const_toolchain wasm l x = Inr wasm"


section \<open>The contract, as the specification words it\<close>





definition both_db :: db where
  "both_db =
     \<lparr>blobs = [''#'' \<mapsto> \<lparr>b_data = [], b_size = 0, b_created_at = 1\<rparr>,
               ''#A'' \<mapsto> \<lparr>b_data = [0x41], b_size = 1, b_created_at = 2\<rparr>],
      events = [],
      aliases = [''#'' \<mapsto> \<lparr>al_name = ''#'', al_hash = ''#A'', al_created_at = 3,
                            al_updated_at = 3\<rparr>]\<rparr>"

section \<open>Properties of the store\<close>

lemmas harness_defs = executeModule_def invoke_run_def const_instance_def TypedArray_set_def
  TypedArray_slice_def INPUT_PTR_def OUTPUT_PTR_def MAX_OUTPUT_def memory_grow_def
  const_runtime_def failing_runtime_def

lemmas store_defs = putBlob_def recordEvent_def event_of_def no_args_def fk_ok_def hasBlob_def
  empty_db_def demo_hash_def toString_utf8_def getBlob_def resolveRef_def getAlias_def

lemma alias_inv_empty: "alias_inv empty_db"
  by (simp add: alias_inv_def empty_db_def)

lemma alias_inv_putBlob: "alias_inv s \<Longrightarrow> alias_inv (snd (putBlob H now x s))"
  by (auto simp: alias_inv_def putBlob_def hasBlob_def Let_def)

lemma alias_inv_recordEvent:
  "alias_inv s \<Longrightarrow> recordEvent now a s = Inr (i, s') \<Longrightarrow> alias_inv s'"
  by (auto simp: alias_inv_def recordEvent_def hasBlob_def Let_def split: if_splits)

lemma alias_inv_setAlias: "alias_inv s \<Longrightarrow> alias_inv (snd (setAlias now name h s))"
  by (auto simp: alias_inv_def setAlias_def hasBlob_def split: option.splits)

lemma alias_inv_deleteAlias: "alias_inv s \<Longrightarrow> alias_inv (snd (deleteAlias name s))"
  by (auto simp: alias_inv_def deleteAlias_def hasBlob_def)

lemma alias_inv_apply_op: "alias_inv s \<Longrightarrow> alias_inv (apply_op H x s)"
proof (cases x)
  case (RecordEvent now a)
  assume inv: "alias_inv s"
  show ?thesis
  proof (cases "recordEvent now a s")
    case (Inl e)
    with RecordEvent inv show ?thesis by simp
  next
    case (Inr p)
    obtain i s' where p: "p = (i, s')" by (cases p)
    with Inr inv have "alias_inv s'" by (auto dest: alias_inv_recordEvent)
    with RecordEvent Inr p show ?thesis by simp
  qed
qed (simp_all add: alias_inv_putBlob alias_inv_setAlias alias_inv_deleteAlias)

lemma alias_inv_apply_ops: "alias_inv s \<Longrightarrow> alias_inv (apply_ops H xs s)"
  by (induction xs arbitrary: s) (simp_all add: alias_inv_apply_op)


text \<open>
  C5: \<open>setAlias(name, hash)\<close> fails, returning the sentinel and leaving the registry as it
  was, whenever no blob with that hash is stored, and \<open>PUT /alias/{name}\<close> then answers
  400 with the store unchanged; every alias of the registry names a
  stored blob, and every operation of the store keeps it so: the invariant holds after
  any sequence of operations on the empty store.
\<close>

theorem setAlias_needs_blob_and_invariant:
  "(\<not> hasBlob h s \<longrightarrow>
      setAlias now nm h s = (None, s)
      \<and> (\<exists>resp. put_alias_route now nm (Some h) s = (Inr resp, s) \<and> status resp = 400))
   \<and> (alias_inv s \<longrightarrow> alias_inv (apply_op H x s))
   \<and> alias_inv (apply_ops H xs empty_db)"
  by (simp add: setAlias_def put_alias_route_def json_error_def alias_inv_apply_op
        alias_inv_apply_ops alias_inv_empty)

theorem setAlias_needs_blob_and_invariant_witness:
  "setAlias 2 ''foo'' ''#A'' (snd (putBlob demo_hash 1 [] empty_db))
     = (None, snd (putBlob demo_hash 1 [] empty_db))
   \<and> (\<exists>resp. put_alias_route 2 ''foo'' (Some ''#A'') (snd (putBlob demo_hash 1 [] empty_db))
         = (Inr resp, snd (putBlob demo_hash 1 [] empty_db)) \<and> status resp = 400)
   \<and> alias_inv (apply_op demo_hash (SetAlias 2 ''foo'' ''#'')
        (snd (putBlob demo_hash 1 [] empty_db)))
   \<and> alias_inv (apply_ops demo_hash
        [PutBlob 1 [], SetAlias 2 ''foo'' ''#'', DeleteAlias ''foo''] empty_db)"
proof -
  have a: "\<not> hasBlob ''#A'' (snd (putBlob demo_hash 1 [] empty_db))"
    by (simp add: hasBlob_def putBlob_def empty_db_def demo_hash_def toString_utf8_def Let_def)
  have b: "alias_inv (snd (putBlob demo_hash 1 [] empty_db))"
    by (simp add: alias_inv_def putBlob_def hasBlob_def empty_db_def Let_def)
  from a b setAlias_needs_blob_and_invariant
    [of "''#A''" "snd (putBlob demo_hash 1 [] empty_db)" 2 "''foo''" demo_hash
        "SetAlias 2 ''foo'' ''#''" "[PutBlob 1 [], SetAlias 2 ''foo'' ''#'', DeleteAlias ''foo'']"]
  show ?thesis by blast
qed

text \<open>
  C6: \<open>resolveRef\<close> takes an alias with that exact name first and returns its hash,
  recording the alias used; otherwise a stored blob with that hash, returning the ref
  itself; otherwise it fails. A name that is both an alias and the hash of a stored blob
  resolves as the alias.
\<close>

theorem resolveRef_alias_first:
  "(aliases s ref = Some a \<longrightarrow>
      resolveRef ref s = Some \<lparr>r_hash = al_hash a, r_alias = Some ref\<rparr>)
   \<and> (aliases s ref = None \<and> blobs s ref \<noteq> None \<longrightarrow>
      resolveRef ref s = Some \<lparr>r_hash = ref, r_alias = None\<rparr>)
   \<and> (aliases s ref = None \<and> blobs s ref = None \<longrightarrow> resolveRef ref s = None)
   \<and> (aliases s ref = Some a \<and> blobs s ref \<noteq> None \<longrightarrow>
      map_option r_hash (resolveRef ref s) = Some (al_hash a))"
  by (simp add: resolveRef_def getAlias_def hasBlob_def)

theorem resolveRef_alias_first_witness:
  "resolveRef ''#'' both_db = Some \<lparr>r_hash = ''#A'', r_alias = Some ''#''\<rparr>
   \<and> resolveRef ''#A'' both_db = Some \<lparr>r_hash = ''#A'', r_alias = None\<rparr>
   \<and> resolveRef ''#B'' both_db = None"
proof -
  have a: "aliases both_db ''#'' = Some \<lparr>al_name = ''#'', al_hash = ''#A'', al_created_at = 3,
      al_updated_at = 3\<rparr>" "blobs both_db ''#'' \<noteq> None"
    by (simp_all add: both_db_def)
  have b: "aliases both_db ''#A'' = None" "blobs both_db ''#A'' \<noteq> None"
    by (simp_all add: both_db_def)
  have c: "aliases both_db ''#B'' = None" "blobs both_db ''#B'' = None"
    by (simp_all add: both_db_def)
  from a resolveRef_alias_first [of both_db "''#''"]
  have 1: "resolveRef ''#'' both_db = Some \<lparr>r_hash = ''#A'', r_alias = Some ''#''\<rparr>"
    by simp
  from b resolveRef_alias_first [of both_db "''#A''"]
  have 2: "resolveRef ''#A'' both_db = Some \<lparr>r_hash = ''#A'', r_alias = None\<rparr>"
    by simp
  from c resolveRef_alias_first [of both_db "''#B''"]
  have 3: "resolveRef ''#B'' both_db = None"
    by simp
  from 1 2 3 show ?thesis by simp
qed

text \<open>
  C7: \<open>put(x)\<close> returns the digest of \<open>x\<close>; a second \<open>put(x)\<close>, at any later time,
  returns the same hash and leaves the store, and so the row and its \<open>created_at\<close>, as it
  was; and \<open>get\<close> of the digest then returns exactly \<open>x\<close>. This holds for every byte
  string, the empty one included, where no other stored blob had the digest of \<open>x\<close>.
\<close>

theorem putBlob_idempotent_get:
  assumes "no_collision H s x"
  shows "fst (putBlob H t1 x s) = H x
     \<and> putBlob H t2 x (snd (putBlob H t1 x s)) = (H x, snd (putBlob H t1 x s))
     \<and> getBlob (H x) (snd (putBlob H t1 x s)) = Some x
     \<and> getBlob (H x) (snd (putBlob H t2 x (snd (putBlob H t1 x s)))) = Some x"
  using assms
  by (auto simp: putBlob_def getBlob_def hasBlob_def no_collision_def Let_def
           split: option.splits)

theorem putBlob_idempotent_get_witness:
  "fst (putBlob demo_hash 1 [] empty_db) = ''#''
   \<and> putBlob demo_hash 2 [] (snd (putBlob demo_hash 1 [] empty_db))
       = (''#'', snd (putBlob demo_hash 1 [] empty_db))
   \<and> getBlob ''#'' (snd (putBlob demo_hash 1 [] empty_db)) = Some []"
proof -
  have h: "demo_hash [] = ''#''"
    by (simp add: demo_hash_def toString_utf8_def)
  have nc: "no_collision demo_hash empty_db []"
    by (simp add: no_collision_def empty_db_def)
  from putBlob_idempotent_get [OF nc, of 1 2] h show ?thesis by simp
qed

section \<open>Properties of the execution harness\<close>

lemma sint_nonneg_unat:
  fixes n :: u32
  assumes "0 \<le> sint n"
  shows "nat (sint n) = unat n"
proof -
  have "sint n < 2 ^ 32"
    using sint_lt [of n] by simp
  with assms have "take_bit 32 (sint n) = sint n"
    by (simp add: take_bit_int_eq_self)
  then have "uint n = sint n"
    using uint_sint [of n] by simp
  then show ?thesis
    by (simp add: unat_eq_nat_uint del: nat_uint_eq)
qed

lemma slice_nonneg:
  assumes "0 \<le> n"
  shows "TypedArray_slice mem (int OUTPUT_PTR) (int OUTPUT_PTR + n)
     = take (nat n) (drop OUTPUT_PTR mem)"
proof (cases "int OUTPUT_PTR + n \<le> int (length mem)")
  case True
  with assms have "nat (int OUTPUT_PTR + n - int OUTPUT_PTR) = nat n" by simp
  with True assms show ?thesis
    by (simp add: TypedArray_slice_def Let_def min_def)
next
  case False
  with assms show ?thesis
    by (auto simp: TypedArray_slice_def Let_def min_def nat_diff_distrib)
qed

lemma slice_small_negative:
  "n < 0 \<Longrightarrow> - 65536 \<le> n \<Longrightarrow> TypedArray_slice mem (int OUTPUT_PTR) (int OUTPUT_PTR + n) = []"
  by (auto simp: TypedArray_slice_def Let_def OUTPUT_PTR_def min_def)

text \<open>
  C1, as the specification states it, fails: a module with three pages of memory whose
  \<open>run\<close> returns 65537 is executed without error, and all 65537 bytes are returned.
\<close>

theorem executeModule_accepts_65537:
  "executeModule (const_runtime 3 65537) [] [] = Inr (replicate 65537 0)"
  by (simp add: harness_defs Let_def)

text \<open>
  C1, amended: the harness does not compare the output length with \<open>MAX_OUTPUT\<close>.
  When \<open>run\<close> returns an \<open>i32\<close> that is not negative, \<open>n\<close>, the execution succeeds
  and its output has \<open>n\<close> bytes, or as many as the memory holds from \<open>OUTPUT_PTR\<close> on
  when that is fewer: 65536 bytes are accepted, and so are 65537.
\<close>

theorem executeModule_no_output_bound:
  "invoke_run W wasmBytes inputBytes = Inr (n, outMem) \<and> 0 \<le> sint n \<longrightarrow>
     (\<exists>out. executeModule W wasmBytes inputBytes = Inr out
        \<and> out = take (unat n) (drop OUTPUT_PTR outMem)
        \<and> length out = min (unat n) (length outMem - OUTPUT_PTR))"
  by (auto simp: executeModule_def slice_nonneg sint_nonneg_unat split: sum.splits)

theorem executeModule_no_output_bound_witness:
  "\<exists>out. executeModule (const_runtime 2 65537) [] [] = Inr out
      \<and> length out = 65536"
proof -
  have a: "invoke_run (const_runtime 2 65537) [] []
      = Inr (65537, replicate (2 * 65536) 0)"
    by (simp add: harness_defs Let_def)
  have b: "0 \<le> sint (65537 :: u32)" by simp
  from executeModule_no_output_bound
    [where W = "const_runtime 2 65537" and wasmBytes = "[]" and inputBytes = "[]"
       and n = 65537 and outMem = "replicate (2 * 65536) 0"] a b
  show ?thesis by (simp add: OUTPUT_PTR_def)
qed

text \<open>
  C3, as the specification states it, fails: a \<open>run\<close> that returns \<open>0xFFFFFFFF\<close> is
  seen as returning -1, and the output is empty, not the bytes of memory from
  \<open>OUTPUT_PTR\<close> on that an unsigned length of \<open>2^32 - 1\<close> would give.
\<close>

theorem executeModule_reads_signed:
  "executeModule (const_runtime 2 0xFFFFFFFF) [] [] = Inr []
   \<and> sint (0xFFFFFFFF :: u32) = - 1
   \<and> executeModule (const_runtime 2 0xFFFFFFFF) [] []
       \<noteq> Inr (take (unat (0xFFFFFFFF :: u32)) (drop OUTPUT_PTR (replicate (2 * 65536) 0)))"
  by (simp add: harness_defs Let_def)

text \<open>
  C3, amended: the value \<open>run\<close> returns is read as a signed 32-bit number \<open>n\<close>, and the
  output is a copy of the slice of memory from \<open>OUTPUT_PTR\<close> to \<open>OUTPUT_PTR + n\<close> under
  the rules of \<open>slice\<close>. For \<open>n\<close> not negative that is the \<open>n\<close> bytes from \<open>OUTPUT_PTR\<close>
  on (fewer where the memory ends); a return value with the sign bit set is a negative
  number, and from -65536 to -1 the output is empty.
\<close>

theorem executeModule_slice_signed:
  "invoke_run W wasmBytes inputBytes = Inr (n, outMem) \<longrightarrow>
     executeModule W wasmBytes inputBytes
       = Inr (TypedArray_slice outMem (int OUTPUT_PTR) (int OUTPUT_PTR + sint n))
     \<and> (0 \<le> sint n \<longrightarrow>
          executeModule W wasmBytes inputBytes = Inr (take (unat n) (drop OUTPUT_PTR outMem)))
     \<and> (sint n < 0 \<and> - 65536 \<le> sint n \<longrightarrow> executeModule W wasmBytes inputBytes = Inr [])"
  by (auto simp: executeModule_def slice_nonneg slice_small_negative sint_nonneg_unat)

theorem executeModule_slice_signed_witness:
  "executeModule (const_runtime 2 3) [] [] = Inr (replicate 3 0)
   \<and> executeModule (const_runtime 2 (- 2)) [] [] = Inr []"
proof -
  have a: "invoke_run (const_runtime 2 3) [] [] = Inr (3, replicate (2 * 65536) 0)"
    by (simp add: harness_defs Let_def)
  have b: "invoke_run (const_runtime 2 (- 2)) [] []
      = Inr (- 2, replicate (2 * 65536) 0)"
    by (simp add: harness_defs Let_def)
  have c: "0 \<le> sint (3 :: u32)" "sint (- 2 :: u32) < 0 \<and> - 65536 \<le> sint (- 2 :: u32)"
    by simp_all
  from executeModule_slice_signed
    [where W = "const_runtime 2 3" and wasmBytes = "[]" and inputBytes = "[]"
       and n = 3 and outMem = "replicate (2 * 65536) 0"] a c(1)
  have 1: "executeModule (const_runtime 2 3) [] [] = Inr (replicate 3 0)"
    by (simp add: OUTPUT_PTR_def TypedArray_slice_def Let_def)
  from executeModule_slice_signed
    [where W = "const_runtime 2 (- 2)" and wasmBytes = "[]" and inputBytes = "[]"
       and n = "- 2" and outMem = "replicate (2 * 65536) 0"] b c(2)
  have 2: "executeModule (const_runtime 2 (- 2)) [] [] = Inr []"
    by blast
  from 1 2 show ?thesis by simp
qed

section \<open>Properties of the contract validator\<close>

text \<open>
  C2, as the specification states it, fails: a Type section whose first type does not
  begin with \<open>0x60\<close> makes \<open>parseTypes\<close> throw, outside the \<open>try\<close> of \<open>validate\<close>, and the
  exception leaves \<open>validate\<close>: an Error for a tag byte that is there, a TypeError for
  one past the end of the section.
\<close>

theorem validate_raises:
  "validate [0x00, 0x61, 0x73, 0x6d, 0x01, 0x00, 0x00, 0x00, 0x01, 0x02, 0x01, 0x00]
     = Inl (Error ''Unexpected type tag: 0x0'')
   \<and> validate [0x00, 0x61, 0x73, 0x6d, 0x01, 0x00, 0x00, 0x00, 0x01, 0x01, 0x01]
     = Inl undefined_toString"
  by code_simp








section \<open>Properties of the routes\<close>

lemma hasBlob_putBlob: "hasBlob (H x) (snd (putBlob H now x s))"
  by (simp add: putBlob_def hasBlob_def Let_def)

lemma hasBlob_putBlob_mono: "hasBlob h s \<Longrightarrow> hasBlob h (snd (putBlob H now x s))"
  by (simp add: putBlob_def hasBlob_def Let_def)

lemma fst_putBlob: "fst (putBlob H now x s) = H x"
  by (simp add: putBlob_def Let_def)

lemma events_putBlob: "events (snd (putBlob H now x s)) = events s"
  by (simp add: putBlob_def Let_def)

lemma fk_ok_hash: "hasBlob h s \<Longrightarrow> fk_ok s (str_or_null (Some h))"
  by (simp add: fk_ok_def)

lemma fk_ok_None: "fk_ok s None"
  by (simp add: fk_ok_def)

lemma recordEvent_ok:
  assumes "fk_ok s (str_or_null (inputHash a))" "fk_ok s (str_or_null (outputHash a))"
    "fk_ok s (str_or_null (moduleHash a))"
  shows "recordEvent now a s
    = Inr (Suc (length (events s)),
           s\<lparr>events := events s @ [event_of (Suc (length (events s))) now a]\<rparr>)"
  using assms by (simp add: recordEvent_def event_of_def Let_def)

text \<open>
  C8 fails on the code. The compile route is to answer 200 with the module whatever
  the validator says. When the toolchain writes a module on which \<open>validate\<close> throws,
  the \<open>catch\<close> of the route answers 400 and records a failed compile, though the module
  was stored. And when the module has an export whose name is not Latin-1, the header
  \<open>X-Contract-Warnings\<close> throws after the success event is written: the answer is 400
  and the log holds a successful and a failed compile event.
\<close>

theorem compile_fails_after_toolchain_success:
  "fst (compile_route demo_hash (const_toolchain bad_tag_module) 5 100 103 ''zig''
          (Some ''x'') empty_db)
     = Inr (json_error 400 [(''error'', ''Compilation failed''),
              (''stderr'', ''Unexpected type tag: 0x0''), (''stdout'', [])])
   \<and> map ev_success (events (snd (compile_route demo_hash (const_toolchain bad_tag_module)
          5 100 103 ''zig'' (Some ''x'') empty_db))) = [0]
   \<and> hasBlob (demo_hash bad_tag_module) (snd (compile_route demo_hash
          (const_toolchain bad_tag_module) 5 100 103 ''zig'' (Some ''x'') empty_db))
   \<and> map_sum id valid (validate lambda_module) = Inr True
   \<and> map_sum id status (fst (compile_route demo_hash (const_toolchain lambda_module)
          5 100 103 ''zig'' (Some ''x'') empty_db)) = Inr 400
   \<and> map ev_success (events (snd (compile_route demo_hash (const_toolchain lambda_module)
          5 100 103 ''zig'' (Some ''x'') empty_db))) = [1, 0]"
  by code_simp

lemma record_resolve_ok:
  assumes "hasBlob (r_hash res) s"
  shows "\<exists>pre. record_resolve now res s = Inr (s\<lparr>events := events s @ pre\<rparr>)
     \<and> (\<forall>x \<in> set pre. ev_type x = ''resolve'')"
proof (cases "str_or_null (r_alias res)")
  case None
  then have "record_resolve now res s = Inr (s\<lparr>events := events s @ []\<rparr>)"
    by (simp add: record_resolve_def)
  then show ?thesis by (intro exI [of _ "[]"]) simp
next
  case (Some a)
  let ?a = "no_args\<lparr>type := Some ''resolve'', aliasName := Some a,
                     outputHash := Some (r_hash res), success := True\<rparr>"
  have "recordEvent now ?a s
    = Inr (Suc (length (events s)),
           s\<lparr>events := events s @ [event_of (Suc (length (events s))) now ?a]\<rparr>)"
    by (rule recordEvent_ok)
       (simp_all add: no_args_def fk_ok_hash fk_ok_None assms del: str_or_null.simps(2))
  with Some have "record_resolve now res s
      = Inr (s\<lparr>events := events s @ [event_of (Suc (length (events s))) now ?a]\<rparr>)"
    by (simp add: record_resolve_def)
  then show ?thesis
    by (intro exI [of _ "[event_of (Suc (length (events s))) now ?a]"])
       (simp add: event_of_def no_args_def)
qed

lemma run_catch_ok:
  assumes "hasBlob mHash s" "hasBlob iHash s" "mHash \<noteq> []" "iHash \<noteq> []"
  shows "\<exists>e. run_catch now t0 t1 mHash iHash err s
       = (Inr (json_error 400 [(''error'', ''Execution failed''), (''message'', message err)]),
          s\<lparr>events := events s @ [e]\<rparr>)
     \<and> ev_type e = ''execute'' \<and> ev_input_hash e = Some iHash \<and> ev_module_hash e = Some mHash
     \<and> ev_output_hash e = None \<and> ev_output_size e = None \<and> ev_success e = 0
     \<and> ev_duration_ms e = (if t1 = t0 then None else Some (t1 - t0))
     \<and> ev_error e = (if message err = [] then None else Some (message err))"
proof -
  let ?a = "no_args\<lparr>type := Some ''execute'', moduleHash := Some mHash,
                inputHash := Some iHash, durationMs := Some (t1 - t0),
                success := False, error := Some (message err)\<rparr>"
  have "recordEvent now ?a s
    = Inr (Suc (length (events s)),
           s\<lparr>events := events s @ [event_of (Suc (length (events s))) now ?a]\<rparr>)"
    by (rule recordEvent_ok)
       (simp_all add: no_args_def fk_ok_hash fk_ok_None assms del: str_or_null.simps(2))
  then show ?thesis
    using assms(3,4)
    by (intro exI [of _ "event_of (Suc (length (events s))) now ?a"])
       (simp add: run_catch_def event_of_def no_args_def)
qed

lemma run_execute_ok:
  assumes "executeModule W wasmBytes inputBytes = Inr out"
    and "hasBlob mHash s" and "hasBlob iHash s"
  shows "run_execute H W now t0 t1 mHash wasmBytes iHash inputBytes s
     = (Inr \<lparr>status = 200,
              headers = [(''Content-Type'', ''application/octet-stream''),
                         (''X-Module-Hash'', mHash), (''X-Input-Hash'', iHash),
                         (''X-Output-Hash'', H out)],
              body = Bytes out\<rparr>,
        (snd (putBlob H now out s))
          \<lparr>events := events s @
             [event_of (Suc (length (events s))) now
                (no_args\<lparr>type := Some ''execute'', moduleHash := Some mHash,
                   inputHash := Some iHash, outputHash := Some (H out),
                   outputSize := Some (int (length out)), durationMs := Some (t1 - t0),
                   success := True\<rparr>)]\<rparr>)"
proof -
  obtain oh s1 where pb: "putBlob H now out s = (oh, s1)"
    by (cases "putBlob H now out s")
  from pb fst_putBlob [of H now out s] have oh: "oh = H out"
    by simp
  from pb have s1: "s1 = snd (putBlob H now out s)"
    by simp
  let ?a = "no_args\<lparr>type := Some ''execute'', moduleHash := Some mHash,
                   inputHash := Some iHash, outputHash := Some (H out),
                   outputSize := Some (int (length out)), durationMs := Some (t1 - t0),
                   success := True\<rparr>"
  have ev: "events s1 = events s"
    unfolding s1 by (rule events_putBlob)
  have "recordEvent now ?a s1
    = Inr (Suc (length (events s1)),
           s1\<lparr>events := events s1 @ [event_of (Suc (length (events s1))) now ?a]\<rparr>)"
    unfolding s1
    by (rule recordEvent_ok)
       (simp_all add: no_args_def fk_ok_hash fk_ok_None assms hasBlob_putBlob
          hasBlob_putBlob_mono del: str_or_null.simps(2))
  with assms(1) pb oh ev show ?thesis
    by (simp add: run_execute_def run_try_def)
qed

text \<open>
  C9: \<open>recordEvent\<close> stores NULL, not 0, when \<open>outputSize\<close> or \<open>durationMs\<close> is 0: the
  row it writes is the row it writes when the field is not supplied at all. An
  execution that returns the empty output is answered 200 with an empty body and
  recorded as one execute event with \<open>success\<close> 1 whose \<open>output_size\<close> is NULL: the very
  row of an execute event whose size was never supplied.
\<close>

theorem recordEvent_zero_is_null:
  "ev_output_size (event_of i now (a\<lparr>outputSize := Some 0\<rparr>)) = None
   \<and> ev_duration_ms (event_of i now (a\<lparr>durationMs := Some 0\<rparr>)) = None
   \<and> recordEvent now (a\<lparr>outputSize := Some 0\<rparr>) s = recordEvent now (a\<lparr>outputSize := None\<rparr>) s
   \<and> recordEvent now (a\<lparr>durationMs := Some 0\<rparr>) s = recordEvent now (a\<lparr>durationMs := None\<rparr>) s
   \<and> (executeModule W wasmBytes inputBytes = Inr [] \<and> hasBlob mHash s \<and> hasBlob iHash s \<longrightarrow>
        (\<exists>resp e. run_execute H W now t0 t1 mHash wasmBytes iHash inputBytes s
              = (Inr resp, (snd (putBlob H now [] s))\<lparr>events := events s @ [e]\<rparr>)
           \<and> status resp = 200 \<and> body resp = Bytes []
           \<and> e = event_of (Suc (length (events s))) now
                  (no_args\<lparr>type := Some ''execute'', moduleHash := Some mHash,
                     inputHash := Some iHash, outputHash := Some (H []),
                     durationMs := Some (t1 - t0), success := True\<rparr>)
           \<and> ev_type e = ''execute'' \<and> ev_success e = 1 \<and> ev_output_size e = None))
   \<and> (resolveRef ref s = Some res \<and> getBlob (r_hash res) s = Some wasmBytes
        \<and> str_or_null inputRef = None \<and> executeModule W wasmBytes reqBody = Inr [] \<longrightarrow>
        (\<exists>resp s' pre e. run_route H W now t0 t1 ref inputRef reqBody s = (Inr resp, s')
           \<and> status resp = 200 \<and> body resp = Bytes []
           \<and> events s' = events s @ pre @ [e]
           \<and> (\<forall>x \<in> set pre. ev_type x = ''resolve'')
           \<and> ev_type e = ''execute'' \<and> ev_success e = 1 \<and> ev_output_size e = None))"
proof -
  have zero: "event_of j t (b\<lparr>outputSize := Some 0\<rparr>) = event_of j t (b\<lparr>outputSize := None\<rparr>)"
    for j t b
    by (simp add: event_of_def)
  have ex: "\<exists>resp e. run_execute H W now t0 t1 mHash wasmBytes iHash inputBytes s
              = (Inr resp, (snd (putBlob H now [] s))\<lparr>events := events s @ [e]\<rparr>)
           \<and> status resp = 200 \<and> body resp = Bytes []
           \<and> e = event_of (Suc (length (events s))) now
                  (no_args\<lparr>type := Some ''execute'', moduleHash := Some mHash,
                     inputHash := Some iHash, outputHash := Some (H []),
                     durationMs := Some (t1 - t0), success := True\<rparr>)
           \<and> ev_type e = ''execute'' \<and> ev_success e = 1 \<and> ev_output_size e = None"
    if "executeModule W wasmBytes inputBytes = Inr []" "hasBlob mHash s" "hasBlob iHash s"
    for mHash wasmBytes iHash inputBytes s
    using run_execute_ok [OF that, of H now t0 t1]
    by (simp add: event_of_def no_args_def)
  have route: "\<exists>resp s' pre e. run_route H W now t0 t1 ref inputRef reqBody s = (Inr resp, s')
           \<and> status resp = 200 \<and> body resp = Bytes []
           \<and> events s' = events s @ pre @ [e]
           \<and> (\<forall>x \<in> set pre. ev_type x = ''resolve'')
           \<and> ev_type e = ''execute'' \<and> ev_success e = 1 \<and> ev_output_size e = None"
    if r: "resolveRef ref s = Some res" and g: "getBlob (r_hash res) s = Some wasmBytes"
      and i: "str_or_null inputRef = None" and x: "executeModule W wasmBytes reqBody = Inr []"
  proof -
    from g have m: "hasBlob (r_hash res) s"
      by (auto simp: getBlob_def hasBlob_def split: option.splits)
    from record_resolve_ok [OF m, of now] obtain pre
      where pre: "record_resolve now res s = Inr (s\<lparr>events := events s @ pre\<rparr>)"
        "\<forall>x \<in> set pre. ev_type x = ''resolve''"
      by blast
    let ?s1 = "s\<lparr>events := events s @ pre\<rparr>"
    let ?s2 = "snd (putBlob H now reqBody ?s1)"
    from g have g1: "getBlob (r_hash res) ?s1 = Some wasmBytes"
      by (simp add: getBlob_def)
    from m have "hasBlob (r_hash res) ?s1"
      by (simp add: hasBlob_def)
    then have m2: "hasBlob (r_hash res) ?s2"
      by (rule hasBlob_putBlob_mono)
    have i2: "hasBlob (H reqBody) ?s2"
      by (rule hasBlob_putBlob)
    have ev2: "events ?s2 = events s @ pre"
      by (simp add: events_putBlob)
    from ex [OF x m2 i2] obtain resp e
      where e: "run_execute H W now t0 t1 (r_hash res) wasmBytes (H reqBody) reqBody ?s2
              = (Inr resp, (snd (putBlob H now [] ?s2))\<lparr>events := events ?s2 @ [e]\<rparr>)"
        "status resp = 200" "body resp = Bytes []"
        "ev_type e = ''execute''" "ev_success e = 1" "ev_output_size e = None"
      by blast
    have "run_route H W now t0 t1 ref inputRef reqBody s
        = run_execute H W now t0 t1 (r_hash res) wasmBytes (H reqBody) reqBody ?s2"
    proof -
      obtain ih s2 where pb: "putBlob H now reqBody ?s1 = (ih, s2)"
        by (cases "putBlob H now reqBody ?s1")
      from r i pre(1) g1 pb have "run_route H W now t0 t1 ref inputRef reqBody s
          = run_execute H W now t0 t1 (r_hash res) wasmBytes ih reqBody s2"
        by (simp add: run_route_def Let_def)
      moreover from pb fst_putBlob [of H now reqBody ?s1] have "ih = H reqBody" "s2 = ?s2"
        by simp_all
      ultimately show ?thesis
        by simp
    qed
    with e pre(2) ev2 show ?thesis
      by (intro exI [of _ resp]
            exI [of _ "(snd (putBlob H now [] ?s2))\<lparr>events := events ?s2 @ [e]\<rparr>"]
            exI [of _ pre] exI [of _ e]) simp
  qed
  from ex route show ?thesis
    by (simp add: recordEvent_def zero event_of_def)
qed

theorem recordEvent_zero_is_null_witness:
  "\<exists>resp s' pre e.
     run_route demo_hash (const_runtime 2 0) 5 100 103 ''#'' None []
       (snd (putBlob demo_hash 1 [] empty_db)) = (Inr resp, s')
     \<and> status resp = 200 \<and> body resp = Bytes []
     \<and> events s' = events (snd (putBlob demo_hash 1 [] empty_db)) @ pre @ [e]
     \<and> ev_type e = ''execute'' \<and> ev_success e = 1 \<and> ev_output_size e = None"
proof -
  let ?s = "snd (putBlob demo_hash 1 [] empty_db)"
  have a: "resolveRef ''#'' ?s = Some \<lparr>r_hash = ''#'', r_alias = None\<rparr>"
    by (simp add: store_defs Let_def)
  have b: "getBlob (r_hash \<lparr>r_hash = ''#'', r_alias = None\<rparr>) ?s = Some []"
    by (simp add: store_defs Let_def)
  have c: "str_or_null None = None"
    by simp
  have d: "executeModule (const_runtime 2 0) [] [] = Inr []"
    by (simp add: harness_defs Let_def)
  from recordEvent_zero_is_null
    [where H = demo_hash and W = "const_runtime 2 0" and ref = "''#''" and s = ?s
       and res = "\<lparr>r_hash = ''#'', r_alias = None\<rparr>" and wasmBytes = "[]"
       and inputRef = None and reqBody = "[]" and now = 5 and ?t0.0 = 100 and ?t1.0 = 103]
    a b c d
  have "\<exists>resp s' pre e.
     run_route demo_hash (const_runtime 2 0) 5 100 103 ''#'' None [] ?s = (Inr resp, s')
     \<and> status resp = 200 \<and> body resp = Bytes []
     \<and> events s' = events ?s @ pre @ [e]
     \<and> (\<forall>x \<in> set pre. ev_type x = ''resolve'')
     \<and> ev_type e = ''execute'' \<and> ev_success e = 1 \<and> ev_output_size e = None"
    by blast
  then show ?thesis by blast
qed

text \<open>
  C10, as the specification states it, fails where the failure takes less than a
  millisecond: the execute event is written with \<open>duration_ms\<close> NULL.
\<close>

theorem run_failure_zero_duration:
  "ev_type (last (events (snd (run_route demo_hash failing_runtime
       5 100 100 ''#'' None [0x41] (snd (putBlob demo_hash 1 [] empty_db)))))) = ''execute''
   \<and> ev_success (last (events (snd (run_route demo_hash failing_runtime
       5 100 100 ''#'' None [0x41] (snd (putBlob demo_hash 1 [] empty_db)))))) = 0
   \<and> ev_duration_ms (last (events (snd (run_route demo_hash failing_runtime
       5 100 100 ''#'' None [0x41] (snd (putBlob demo_hash 1 [] empty_db)))))) = None"
  by (simp add: run_route_def run_execute_def run_try_def run_catch_def record_resolve_def
        harness_defs store_defs char_of_def Let_def)

text \<open>
  C10, amended: \<open>POST /run/{ref}\<close> with a body input stores the input as a blob before
  it executes the module. When the execution fails, the answer is 400, the input blob is
  still stored, and the log grows by the resolve event of an alias, if one was used, and
  exactly one execute event with that \<open>input_hash\<close>, the \<open>module_hash\<close>, \<open>success\<close> 0,
  the message of the runtime and no \<open>output_hash\<close>; its \<open>duration_ms\<close> is the measured
  time when that is not 0 and NULL when it is. A hash is not the empty string, and an
  empty message would be stored as NULL.
\<close>

theorem run_failure_keeps_input_and_logs:
  assumes "resolveRef ref s = Some res"
    and "getBlob (r_hash res) s = Some wasmBytes"
    and "str_or_null inputRef = None"
    and "executeModule W wasmBytes reqBody = Inl err"
    and "H reqBody \<noteq> []" and "r_hash res \<noteq> []"
  shows "\<exists>resp s' pre e. run_route H W now t0 t1 ref inputRef reqBody s = (Inr resp, s')
     \<and> status resp = 400
     \<and> hasBlob (H reqBody) s'
     \<and> (no_collision H s reqBody \<longrightarrow> getBlob (H reqBody) s' = Some reqBody)
     \<and> events s' = events s @ pre @ [e]
     \<and> (\<forall>x \<in> set pre. ev_type x = ''resolve'')
     \<and> ev_type e = ''execute''
     \<and> ev_input_hash e = Some (H reqBody) \<and> ev_module_hash e = Some (r_hash res)
     \<and> ev_output_hash e = None \<and> ev_success e = 0
     \<and> ev_duration_ms e = (if t1 = t0 then None else Some (t1 - t0))
     \<and> ev_error e = (if message err = [] then None else Some (message err))"
proof -
  from assms(2) have m: "hasBlob (r_hash res) s"
    by (auto simp: getBlob_def hasBlob_def split: option.splits)
  from record_resolve_ok [OF m, of now] obtain pre
    where pre: "record_resolve now res s = Inr (s\<lparr>events := events s @ pre\<rparr>)"
      "\<forall>x \<in> set pre. ev_type x = ''resolve''"
    by blast
  let ?s1 = "s\<lparr>events := events s @ pre\<rparr>"
  let ?s2 = "snd (putBlob H now reqBody ?s1)"
  from assms(2) have g: "getBlob (r_hash res) ?s1 = Some wasmBytes"
    by (simp add: getBlob_def)
  from m have "hasBlob (r_hash res) ?s1"
    by (simp add: hasBlob_def)
  then have m2: "hasBlob (r_hash res) ?s2"
    by (rule hasBlob_putBlob_mono)
  have i2: "hasBlob (H reqBody) ?s2"
    by (rule hasBlob_putBlob)
  have ev2: "events ?s2 = events s @ pre"
    by (simp add: events_putBlob)
  from run_catch_ok [OF m2 i2 assms(6) assms(5), of now t0 t1 err] obtain e
    where e: "run_catch now t0 t1 (r_hash res) (H reqBody) err ?s2
       = (Inr (json_error 400 [(''error'', ''Execution failed''), (''message'', message err)]),
          ?s2\<lparr>events := events ?s2 @ [e]\<rparr>)"
      "ev_type e = ''execute''" "ev_input_hash e = Some (H reqBody)"
      "ev_module_hash e = Some (r_hash res)" "ev_output_hash e = None" "ev_success e = 0"
      "ev_duration_ms e = (if t1 = t0 then None else Some (t1 - t0))"
      "ev_error e = (if message err = [] then None else Some (message err))"
    by blast
  have route: "run_route H W now t0 t1 ref inputRef reqBody s
      = run_catch now t0 t1 (r_hash res) (H reqBody) err ?s2"
    using assms(1,3,4) pre(1) g
    by (cases "putBlob H now reqBody ?s1")
       (auto simp: run_route_def run_execute_def run_try_def Let_def putBlob_def)
  have keep: "hasBlob (H reqBody) (?s2\<lparr>events := events ?s2 @ [e]\<rparr>)"
    using i2 by (simp add: hasBlob_def)
  have get: "getBlob (H reqBody) (?s2\<lparr>events := events ?s2 @ [e]\<rparr>) = Some reqBody"
    if "no_collision H s reqBody"
    using that
    by (auto simp: getBlob_def putBlob_def hasBlob_def no_collision_def Let_def
          split: option.splits)
  show ?thesis
    using route e pre(2) keep get ev2
    by (intro exI [of _ "json_error 400 [(''error'', ''Execution failed''), (''message'', message err)]"]
              exI [of _ "?s2\<lparr>events := events ?s2 @ [e]\<rparr>"] exI [of _ pre] exI [of _ e])
       (simp add: json_error_def)
qed

theorem run_failure_keeps_input_and_logs_witness:
  "\<exists>resp s' pre e.
     run_route demo_hash failing_runtime 5 100 107 ''#'' None
       [0x41] (snd (putBlob demo_hash 1 [] empty_db)) = (Inr resp, s')
     \<and> status resp = 400
     \<and> hasBlob (demo_hash [0x41]) s'
     \<and> events s' = events (snd (putBlob demo_hash 1 [] empty_db)) @ pre @ [e]
     \<and> ev_type e = ''execute''
     \<and> ev_input_hash e = Some (demo_hash [0x41]) \<and> ev_module_hash e = Some ''#''
     \<and> ev_output_hash e = None \<and> ev_success e = 0
     \<and> ev_duration_ms e = Some 7
     \<and> ev_error e = Some ''WebAssembly.compile()''"
proof -
  let ?s = "snd (putBlob demo_hash 1 [] empty_db)"
  let ?W = failing_runtime
  have a: "resolveRef ''#'' ?s = Some \<lparr>r_hash = ''#'', r_alias = None\<rparr>"
    by (simp add: store_defs Let_def)
  have b: "getBlob (r_hash \<lparr>r_hash = ''#'', r_alias = None\<rparr>) ?s = Some []"
    by (simp add: store_defs Let_def)
  have c: "str_or_null None = None"
    by simp
  have d: "executeModule ?W [] [0x41] = Inl (WasmError ''WebAssembly.compile()'')"
    by (simp add: executeModule_def invoke_run_def failing_runtime_def)
  have e: "demo_hash [0x41] \<noteq> []" "r_hash \<lparr>r_hash = ''#'', r_alias = None\<rparr> \<noteq> []"
    by (simp_all add: demo_hash_def)
  from run_failure_keeps_input_and_logs
    [where H = demo_hash and W = ?W and ref = "''#''" and s = ?s
       and res = "\<lparr>r_hash = ''#'', r_alias = None\<rparr>" and wasmBytes = "[]"
       and inputRef = None and reqBody = "[0x41]"
       and err = "WasmError ''WebAssembly.compile()''" and now = 5 and ?t0.0 = 100
       and ?t1.0 = 107, OF a b c d e]
  show ?thesis by auto
qed

end
